theory Spec2Isabelle
  imports Main "HOL-Library.AList"
begin

section \<open>Message protocol (types.ts)\<close>

text \<open>
  The wire vocabulary of the signalling protocol. Field names carry a short prefix
  because record selectors are global constants (\<open>Peer.id\<close> is \<open>peer_id\<close>, and so on).
  An optional field (\<open>remove?: boolean\<close>, \<open>sdp?: string\<close>) is an \<open>option\<close>; \<open>None\<close> is
  JavaScript's \<open>undefined\<close>, which \<open>JSON.stringify\<close> leaves out of the frame.
\<close>

record peer =
  peer_id :: string
  peer_name :: string
  peer_remove :: "bool option"

type_synonym ice_init = string

record ice_candidate =
  ice_id :: string
  ice_target :: string
  ice_cand :: ice_init

text \<open>\<open>RTCSessionDescriptionInit\<close>, and \<open>Offer\<close>/\<open>Answer\<close>, which extend it with the
  two routing fields.\<close>

record description =
  desc_type :: string
  desc_sdp :: "string option"

record offer =
  offer_type :: string
  offer_sdp :: "string option"
  offer_source :: string
  offer_target :: string

type_synonym answer = offer

record reject_data =
  rej_source :: string
  rej_target :: string

datatype rtc_message =
    IdentifyMessage peer
  | IceCandidateMessage ice_candidate
  | OfferMessage offer
  | AcceptMessage answer
  | RejectMessage reject_data

text \<open>What travels from the relay to a client: \<open>RtcMessage | PeerMessage | ReadyMessage\<close>.
  \<open>ReadyMessage version id\<close>.\<close>

datatype server_message =
    Rtc rtc_message
  | PeerMessage peer
  | ReadyMessage string string

datatype client_message = ChatMessage string | DisconnectMessage

section \<open>Signal relay (server rtc.ts)\<close>

text \<open>
  \<open>connections\<close> is a JavaScript \<open>Map<WebSocket, Peer>\<close>: keys are distinct and iteration
  follows insertion order, so it is an association list. \<open>Map.set\<close> replaces the value of
  a present key in place and appends an absent one (\<open>AList.update\<close>); \<open>Map.delete\<close> is
  \<open>AList.delete\<close>; \<open>Map.has\<close>/\<open>Map.get\<close> are \<open>map_of\<close>.

  A handler's observable effects are collected in order: every \<open>socket.send\<close> and every
  mutation of the registry. Each handler is followed from its first statement to its
  last as one step; \<open>notifyClient\<close> contains no \<open>await\<close>, so its send happens at the
  call. Console output of the relay is not modelled.
\<close>

type_synonym socket = nat

type_synonym registry = "(socket \<times> peer) list"

datatype relay_effect =
    Sent socket server_message
  | Stored socket peer
  | Deleted socket

definition send :: "socket option \<Rightarrow> server_message \<Rightarrow> relay_effect list" where
  "send sock message = (case sock of None \<Rightarrow> [] | Some s \<Rightarrow> [Sent s message])"

fun getConnection :: "registry \<Rightarrow> string \<Rightarrow> socket option" where
  "getConnection [] clientId = None"
| "getConnection ((sock, client) # rest) clientId =
     (if peer_id client = clientId then Some sock else getConnection rest clientId)"

definition notifyClient :: "socket \<Rightarrow> peer \<Rightarrow> peer \<Rightarrow> bool option \<Rightarrow> relay_effect list" where
  "notifyClient sock client other rm =
     send (Some sock) (PeerMessage (other\<lparr>peer_remove := rm\<rparr>))"

text \<open>\<open>for (const peer of connections.values()) notifications.push(notifyClient(socket, client, peer))\<close>\<close>

fun tell_existing :: "socket \<Rightarrow> peer \<Rightarrow> registry \<Rightarrow> relay_effect list" where
  "tell_existing sock client [] = []"
| "tell_existing sock client ((psock, p) # rest) =
     notifyClient sock client p None @ tell_existing sock client rest"

text \<open>\<open>for (const [psock, peer] of connections.entries()) if (peer.id !== client.id) ...\<close>\<close>

fun announce :: "peer \<Rightarrow> registry \<Rightarrow> relay_effect list" where
  "announce client [] = []"
| "announce client ((psock, p) # rest) =
     (if peer_id p \<noteq> peer_id client then notifyClient psock p client None else [])
       @ announce client rest"

text \<open>\<open>msg.data.target\<close>: every frame but \<open>identify\<close> carries one (\<open>None\<close> is
  \<open>undefined\<close>, which equals no client id).\<close>

fun target :: "rtc_message \<Rightarrow> string option" where
  "target (IdentifyMessage p) = None"
| "target (IceCandidateMessage c) = Some (ice_target c)"
| "target (OfferMessage ofr) = Some (offer_target ofr)"
| "target (AcceptMessage a) = Some (offer_target a)"
| "target (RejectMessage r) = Some (rej_target r)"

fun handleMessage :: "rtc_message \<Rightarrow> socket \<Rightarrow> registry \<Rightarrow> relay_effect list \<times> registry" where
  "handleMessage (IdentifyMessage client) sock connections =
     (let notifications =
            (if map_of connections sock = None then tell_existing sock client connections else [])
            @ announce client connections
      in (notifications @ [Stored sock client], AList.update sock client connections))"
| "handleMessage msg sock connections =
     (send (case target msg of None \<Rightarrow> None | Some t \<Rightarrow> getConnection connections t) (Rtc msg),
      connections)"

text \<open>\<open>for (const [sock, peer] of connections.entries()) await notifyClient(sock, peer, client, true)\<close>\<close>

fun tell_removed :: "peer \<Rightarrow> registry \<Rightarrow> relay_effect list" where
  "tell_removed client [] = []"
| "tell_removed client ((sock, p) # rest) =
     notifyClient sock p client (Some True) @ tell_removed client rest"

definition socket_close :: "socket \<Rightarrow> registry \<Rightarrow> relay_effect list \<times> registry" where
  "socket_close sock connections =
     (case map_of connections sock of
        None \<Rightarrow> ([], connections)
      | Some client \<Rightarrow>
          (let remaining = AList.delete sock connections
           in (Deleted sock # tell_removed client remaining, remaining)))"

text \<open>Observers over an effect list: the frames one socket was sent, in order, and the
  effects that are sends.\<close>

fun sent_to :: "socket \<Rightarrow> relay_effect list \<Rightarrow> server_message list" where
  "sent_to s [] = []"
| "sent_to s (Sent s' m # es) = (if s' = s then m # sent_to s es else sent_to s es)"
| "sent_to s (e # es) = sent_to s es"

fun is_send :: "relay_effect \<Rightarrow> bool" where
  "is_send (Sent s m) = True"
| "is_send e = False"

text \<open>The registry of Scenario A: Alice, then Bob; Carol is about to join on socket 3.\<close>

definition alice :: peer where
  "alice = \<lparr>peer_id = ''a1'', peer_name = ''Alice'', peer_remove = None\<rparr>"

definition bob :: peer where
  "bob = \<lparr>peer_id = ''b1'', peer_name = ''Bob'', peer_remove = None\<rparr>"

definition carol :: peer where
  "carol = \<lparr>peer_id = ''c1'', peer_name = ''Carol'', peer_remove = None\<rparr>"

definition two_peers :: registry where
  "two_peers = [(1, alice), (2, bob)]"

section \<open>Client (client rtc.ts)\<close>

text \<open>
  The class \<open>WebRTCClient\<close>: its private fields are the record \<open>client\<close>, and every
  method takes the client and returns it updated. A \<open>throw\<close> is the result \<open>Inl\<close> of an
  \<open>error\<close>, returned together with the client as it stands at the throw.

  The browser is the environment. What the client does to it is appended to \<open>trace\<close>, in
  order: calls on the \<open>RTCPeerConnection\<close> and its data channel, frames written to the
  relay socket, events handed to \<open>#emit\<close>, \<open>console.warn\<close> lines, timers and sockets.
  What the browser answers is a parameter: \<open>rtc_env\<close> says which promises of the RTC
  transport resolve. An \<open>async\<close> method is followed from its first statement to its last
  as one step. \<open>console.debug\<close> and \<open>console.log\<close> lines are left out, and \<open>#emit\<close> is
  recorded whether or not a listener is registered. The listener table (\<open>on\<close>), the
  \<open>name\<close> setter, \<open>getCameras\<close> and the getters are not part of the model.
\<close>

text \<open>The errors thrown, in the order of the messages "Stream must be open to create a
  peer connection", "Client already has an active peer connection", "Unknown peer ...",
  "Unable to generate offer", "Unable to generate answer", "No peer connection", "Answer
  or offer doesn't match pending peer connection" and "Client is not connected"; the
  last one stands for a promise of the RTC transport that rejects.\<close>

datatype error =
    StreamMustBeOpen
  | ActivePeerConnection
  | UnknownPeer string
  | UnableToGenerateOffer
  | UnableToGenerateAnswer
  | NoPeerConnection
  | DescriptionMismatch
  | ClientNotConnected
  | TransportRejected

type_synonym track = string

datatype rtc_event =
    PeerAdded peer
  | PeerUpdated peer
  | PeerRemoved peer
  | PeerDisconnected string
  | Connected
  | Disconnected
  | OfferEvent offer
  | ChatEvent peer string

datatype warning =
    IgnoringIceCandidate string
  | ErrorAddingIceCandidate ice_init
  | ChannelNotReady string
  | Caught error

datatype rtc_call =
    NewRTCPeerConnection
  | CreateDataChannel
  | AddTrack track
  | CreateOffer
  | CreateAnswer
  | SetLocalDescription description
  | SetRemoteDescription offer
  | AddIceCandidate ice_init
  | ReplaceTracks "track list"
  | ChannelClose
  | ConnectionClose

datatype effect =
    Call rtc_call
  | OpenSocket socket
  | SocketSend socket rtc_message
  | SocketClose socket
  | ChannelSend client_message
  | Emit rtc_event
  | Warn warning
  | Unhandled error
  | Reload
  | StopTrack track

datatype ready_state = Connecting | Open | Closing | Closed

text \<open>The two properties of the \<open>RTCPeerConnection\<close> that the client reads or sets as
  plain fields.\<close>

record rtc_connection =
  remoteDescription :: "offer option"
  onicecandidate :: bool

text \<open>\<open>type PeerConnection\<close>; of the channel only \<open>readyState\<close> is read.\<close>

record peer_connection =
  pc_peer :: peer
  pc_connection :: rtc_connection
  pc_channel :: ready_state
  pc_iceCandidates :: "ice_init list"

text \<open>The fields of the class, then the browser's side: the timeouts that are pending
  (handle and delay in milliseconds), the next unused handle for a timer or socket, and
  the trace.\<close>

record client =
  closed :: bool
  version :: string
  client_id :: string
  client_name :: string
  peerConnection :: "peer_connection option"
  peers :: "string \<rightharpoonup> peer"
  reconnectTimer :: "nat option"
  socket :: "socket option"
  stream :: "track list option"
  timers :: "(nat \<times> nat) list"
  fresh :: nat
  trace :: "effect list"

record rtc_env =
  createOffer_result :: "description option"
  createAnswer_result :: "description option"
  setLocalDescription_ok :: "description \<Rightarrow> bool"
  setRemoteDescription_ok :: "offer \<Rightarrow> bool"
  addIceCandidate_ok :: "ice_init \<Rightarrow> bool"

type_synonym 'a result = "(error + 'a) \<times> client"

definition new_client :: "string option \<Rightarrow> client" where
  "new_client nm =
     \<lparr>closed = False, version = [], client_id = [],
      client_name = (case nm of None \<Rightarrow> ''Anonymous'' | Some n \<Rightarrow> n),
      peerConnection = None, peers = Map.empty, reconnectTimer = None, socket = None,
      stream = None, timers = [], fresh = 0, trace = []\<rparr>"

definition log :: "effect list \<Rightarrow> client \<Rightarrow> client" where
  "log es c = c\<lparr>trace := trace c @ es\<rparr>"

definition emit :: "rtc_event \<Rightarrow> client \<Rightarrow> client" where
  "emit ev c = log [Emit ev] c"

definition getPeerConnection :: "client \<Rightarrow> error + peer_connection" where
  "getPeerConnection c =
     (case peerConnection c of None \<Rightarrow> Inl NoPeerConnection | Some pc \<Rightarrow> Inr pc)"

definition sendToSignalServer :: "rtc_message \<Rightarrow> client \<Rightarrow> unit result" where
  "sendToSignalServer message c =
     (case socket c of
        None \<Rightarrow> (Inl ClientNotConnected, c)
      | Some s \<Rightarrow> (Inr (), log [SocketSend s message] c))"

definition sendToPeer :: "client_message \<Rightarrow> client \<Rightarrow> unit result" where
  "sendToPeer message c =
     (case getPeerConnection c of
        Inl e \<Rightarrow> (Inl e, c)
      | Inr pc \<Rightarrow>
          (if pc_channel pc = Open then (Inr (), log [ChannelSend message] c)
           else (Inr (), log [Warn (ChannelNotReady (peer_id (pc_peer pc)))] c)))"

definition closeConnection :: "client \<Rightarrow> client" where
  "closeConnection c =
     (case peerConnection c of
        None \<Rightarrow> c
      | Some pc \<Rightarrow>
          emit (PeerDisconnected (peer_id (pc_peer pc)))
            ((log [Call ChannelClose, Call ConnectionClose] c)\<lparr>peerConnection := None\<rparr>))"

definition disconnect :: "client \<Rightarrow> unit result" where
  "disconnect c =
     (case sendToPeer DisconnectMessage c of
        (Inl e, c1) \<Rightarrow> (Inl e, c1)
      | (Inr u, c1) \<Rightarrow> (Inr (), closeConnection c1))"

definition sendChat :: "string \<Rightarrow> client \<Rightarrow> unit result" where
  "sendChat message c = sendToPeer (ChatMessage message) c"

definition createPeerConnection :: "string \<Rightarrow> client \<Rightarrow> unit result" where
  "createPeerConnection peerId c =
     (case stream c of
        None \<Rightarrow> (Inl StreamMustBeOpen, c)
      | Some tracks \<Rightarrow>
          (if peerConnection c \<noteq> None then (Inl ActivePeerConnection, c)
           else
             (case peers c peerId of
                None \<Rightarrow> (Inl (UnknownPeer peerId), c)
              | Some p \<Rightarrow>
                  (Inr (),
                   log ([Call NewRTCPeerConnection, Call CreateDataChannel] @ map (\<lambda>t. Call (AddTrack t)) tracks)
                     (c\<lparr>peerConnection :=
                          Some \<lparr>pc_peer = p,
                                pc_connection = \<lparr>remoteDescription = None, onicecandidate = False\<rparr>,
                                pc_channel = Connecting,
                                pc_iceCandidates = []\<rparr>\<rparr>)))))"

text \<open>The loop of \<open>#setRemoteDescription\<close>: \<open>shift\<close> the head of the queue, call
  \<open>addIceCandidate\<close>, warn when it rejects, until the queue is empty.\<close>

fun drain :: "ice_init list \<Rightarrow> rtc_env \<Rightarrow> effect list" where
  "drain [] env = []"
| "drain (candidate # rest) env =
     (Call (AddIceCandidate candidate)
        # (if addIceCandidate_ok env candidate then []
           else [Warn (ErrorAddingIceCandidate candidate)]))
     @ drain rest env"

definition setRemoteDescription :: "offer \<Rightarrow> rtc_env \<Rightarrow> client \<Rightarrow> unit result" where
  "setRemoteDescription answerOrOffer env c =
     (case getPeerConnection c of
        Inl e \<Rightarrow> (Inl e, c)
      | Inr pc \<Rightarrow>
          (if peer_id (pc_peer pc) \<noteq> offer_source answerOrOffer then (Inl DescriptionMismatch, c)
           else
             (let c1 = log [Call (SetRemoteDescription answerOrOffer)] c in
              if \<not> setRemoteDescription_ok env answerOrOffer then (Inl TransportRejected, c1)
              else
                (Inr (),
                 log (drain (pc_iceCandidates pc) env)
                   (c1\<lparr>peerConnection :=
                         Some (pc\<lparr>pc_connection :=
                                     (pc_connection pc)\<lparr>remoteDescription := Some answerOrOffer\<rparr>,
                                   pc_iceCandidates := []\<rparr>)\<rparr>)))))"

definition addIceCandidate :: "ice_candidate \<Rightarrow> rtc_env \<Rightarrow> client \<Rightarrow> unit result" where
  "addIceCandidate candidate env c =
     (case getPeerConnection c of
        Inl e \<Rightarrow> (Inl e, c)
      | Inr pc \<Rightarrow>
          (if ice_id candidate \<noteq> peer_id (pc_peer pc)
           then (Inr (), log [Warn (IgnoringIceCandidate (ice_id candidate))] c)
           else if remoteDescription (pc_connection pc) \<noteq> None
           then (Inr (),
                 log (Call (AddIceCandidate (ice_cand candidate))
                        # (if addIceCandidate_ok env (ice_cand candidate) then []
                           else [Warn (ErrorAddingIceCandidate (ice_cand candidate))])) c)
           else (Inr (),
                 c\<lparr>peerConnection :=
                     Some (pc\<lparr>pc_iceCandidates := pc_iceCandidates pc @ [ice_cand candidate]\<rparr>)\<rparr>)))"

text \<open>\<open>connection.onicecandidate = ...\<close>: from then on local candidates are sent to the peer.\<close>

definition start_sending_candidates :: "client \<Rightarrow> client" where
  "start_sending_candidates c =
     c\<lparr>peerConnection :=
         map_option (\<lambda>pc. pc\<lparr>pc_connection := (pc_connection pc)\<lparr>onicecandidate := True\<rparr>\<rparr>)
           (peerConnection c)\<rparr>"

definition connectToPeer :: "answer \<Rightarrow> rtc_env \<Rightarrow> client \<Rightarrow> unit result" where
  "connectToPeer ans env c =
     (case setRemoteDescription ans env c of
        (Inl e, c1) \<Rightarrow> (Inl e, c1)
      | (Inr u, c1) \<Rightarrow>
          (case getPeerConnection c1 of
             Inl e \<Rightarrow> (Inl e, c1)
           | Inr pc \<Rightarrow> (Inr (), start_sending_candidates c1)))"

definition invite :: "string \<Rightarrow> rtc_env \<Rightarrow> client \<Rightarrow> unit result" where
  "invite peerId env c =
     (case createPeerConnection peerId c of
        (Inl e, c1) \<Rightarrow> (Inl e, c1)
      | (Inr u, c1) \<Rightarrow>
          (let c2 = log [Call CreateOffer] c1 in
           case createOffer_result env of
             None \<Rightarrow> (Inl TransportRejected, c2)
           | Some ofr \<Rightarrow>
               (case desc_sdp ofr of
                  None \<Rightarrow> (Inl UnableToGenerateOffer, c2)
                | Some sdp \<Rightarrow>
                    (if sdp = [] then (Inl UnableToGenerateOffer, c2)
                     else
                       (let c3 = log [Call (SetLocalDescription ofr)] c2 in
                        if \<not> setLocalDescription_ok env ofr then (Inl TransportRejected, c3)
                        else
                          sendToSignalServer
                            (OfferMessage
                               \<lparr>offer_type = desc_type ofr, offer_sdp = Some sdp,
                                offer_source = client_id c3, offer_target = peerId\<rparr>)
                            c3)))))"

definition accept :: "offer \<Rightarrow> rtc_env \<Rightarrow> client \<Rightarrow> unit result" where
  "accept ofr env c =
     (let peerId = offer_source ofr in
      case createPeerConnection peerId c of
        (Inl e, c1) \<Rightarrow> (Inl e, c1)
      | (Inr u, c1) \<Rightarrow>
          (case setRemoteDescription ofr env c1 of
             (Inl e, c2) \<Rightarrow> (Inl e, c2)
           | (Inr u, c2) \<Rightarrow>
               (let c3 = log [Call CreateAnswer] c2 in
                case createAnswer_result env of
                  None \<Rightarrow> (Inl TransportRejected, c3)
                | Some ans \<Rightarrow>
                    (case desc_sdp ans of
                       None \<Rightarrow> (Inl UnableToGenerateAnswer, c3)
                     | Some sdp \<Rightarrow>
                         (if sdp = [] then (Inl UnableToGenerateAnswer, c3)
                          else
                            (let c4 = log [Call (SetLocalDescription ans)] c3 in
                             if \<not> setLocalDescription_ok env ans then (Inl TransportRejected, c4)
                             else
                               (case sendToSignalServer
                                       (AcceptMessage
                                          \<lparr>offer_type = desc_type ans, offer_sdp = Some sdp,
                                           offer_source = client_id c4,
                                           offer_target = offer_source ofr\<rparr>)
                                       c4 of
                                  (Inl e, c5) \<Rightarrow> (Inl e, c5)
                                | (Inr u, c5) \<Rightarrow> (Inr (), start_sending_candidates c5))))))))"

definition reject :: "offer \<Rightarrow> client \<Rightarrow> unit result" where
  "reject ofr c =
     sendToSignalServer
       (RejectMessage \<lparr>rej_source = client_id c, rej_target = offer_source ofr\<rparr>) c"

text \<open>
  \<open>#handleServerMessage\<close>. Its \<open>try\<close>/\<open>catch\<close> turns an error into a \<open>console.warn\<close>, so it
  always returns normally. The \<open>accept\<close> case calls \<open>#connectToPeer\<close> without \<open>await\<close>: an
  error there rejects a promise that nobody holds, which the \<open>catch\<close> never sees. An
  \<open>identify\<close> frame matches no \<open>case\<close>.
\<close>

fun handleServerMessage :: "server_message \<Rightarrow> rtc_env \<Rightarrow> client \<Rightarrow> client" where
  "handleServerMessage (PeerMessage p) env c =
     (if peer_remove p = Some True
      then emit (PeerRemoved p) (c\<lparr>peers := (peers c)(peer_id p := None)\<rparr>)
      else
        (let event = (if peers c (peer_id p) \<noteq> None then PeerUpdated p else PeerAdded p)
         in emit event (c\<lparr>peers := (peers c)(peer_id p \<mapsto> p)\<rparr>)))"
| "handleServerMessage (Rtc (OfferMessage ofr)) env c = emit (OfferEvent ofr) c"
| "handleServerMessage (Rtc (AcceptMessage ans)) env c =
     (case connectToPeer ans env c of
        (Inl e, c1) \<Rightarrow> log [Unhandled e] c1
      | (Inr u, c1) \<Rightarrow> c1)"
| "handleServerMessage (Rtc (RejectMessage r)) env c = closeConnection c"
| "handleServerMessage (Rtc (IceCandidateMessage candidate)) env c =
     (case addIceCandidate candidate env c of
        (Inl e, c1) \<Rightarrow> log [Warn (Caught e)] c1
      | (Inr u, c1) \<Rightarrow> c1)"
| "handleServerMessage (ReadyMessage v i) env c =
     (if version c \<noteq> [] \<and> version c \<noteq> v then log [Reload] c
      else
        (let c1 = (if version c = [] then c\<lparr>version := v\<rparr> else c);
             c2 = c1\<lparr>client_id := i\<rparr>
         in case sendToSignalServer
                   (IdentifyMessage
                      \<lparr>peer_id = client_id c2, peer_name = client_name c2, peer_remove = None\<rparr>)
                   c2 of
              (Inl e, c3) \<Rightarrow> log [Warn (Caught e)] c3
            | (Inr u, c3) \<Rightarrow> c3))"
| "handleServerMessage (Rtc (IdentifyMessage p)) env c = c"

text \<open>\<open>#handlePeerMessage\<close> (the data channel's \<open>onmessage\<close>) and the transport's
  \<open>onconnectionstatechange\<close> for the states \<open>disconnected\<close> and \<open>failed\<close>.\<close>

fun handlePeerMessage :: "peer \<Rightarrow> client_message \<Rightarrow> client \<Rightarrow> client" where
  "handlePeerMessage p (ChatMessage text) c = emit (ChatEvent p text) c"
| "handlePeerMessage p DisconnectMessage c = closeConnection c"

definition connection_failed :: "client \<Rightarrow> client" where
  "connection_failed c = closeConnection c"

text \<open>The browser moves the data channel of the session to another \<open>readyState\<close>.\<close>

definition channel_state :: "ready_state \<Rightarrow> client \<Rightarrow> client" where
  "channel_state st c =
     c\<lparr>peerConnection := map_option (\<lambda>pc. pc\<lparr>pc_channel := st\<rparr>) (peerConnection c)\<rparr>"

subsection \<open>Relay connection and reconnection\<close>

text \<open>\<open>new WebSocket(...)\<close> and \<open>setTimeout\<close> return a handle that was never used before.
  \<open>clearTimeout\<close> takes a timeout off the pending list; on \<open>undefined\<close>, or on a handle that
  is no longer pending, it does nothing.\<close>

definition reconnect_delay :: nat where
  "reconnect_delay = 1000"

definition connectToSignalServer :: "client \<Rightarrow> client" where
  "connectToSignalServer c =
     (let s = fresh c in log [OpenSocket s] (c\<lparr>socket := Some s, fresh := Suc s\<rparr>))"

definition disconnectFromSignalServer :: "client \<Rightarrow> client" where
  "disconnectFromSignalServer c =
     (case socket c of None \<Rightarrow> c | Some s \<Rightarrow> log [SocketClose s] c)\<lparr>socket := None\<rparr>"

definition clearTimeout :: "nat option \<Rightarrow> client \<Rightarrow> client" where
  "clearTimeout t c =
     (case t of None \<Rightarrow> c | Some i \<Rightarrow> c\<lparr>timers := filter (\<lambda>(j, d). j \<noteq> i) (timers c)\<rparr>)"

text \<open>The callback that \<open>#reconnectToSignalServer\<close> hands to \<open>setTimeout\<close>.\<close>

definition reconnect_attempt :: "client \<Rightarrow> client" where
  "reconnect_attempt c = (if socket c \<noteq> None then c else connectToSignalServer c)"

definition reconnectToSignalServer :: "client \<Rightarrow> client" where
  "reconnectToSignalServer c =
     (let c1 = clearTimeout (reconnectTimer c) c;
          t = fresh c1
      in c1\<lparr>reconnectTimer := Some t, timers := timers c1 @ [(t, reconnect_delay)],
            fresh := Suc t\<rparr>)"

text \<open>The socket's \<open>onopen\<close> and \<open>onclose\<close> handlers.\<close>

definition socket_onopen :: "client \<Rightarrow> client" where
  "socket_onopen c = emit Connected c"

definition socket_onclose :: "client \<Rightarrow> client" where
  "socket_onclose c =
     (let c1 = emit Disconnected (c\<lparr>socket := None\<rparr>)
      in if \<not> closed c1 \<and> stream c1 \<noteq> None then reconnectToSignalServer c1 else c1)"

text \<open>The browser runs a pending timeout: it leaves the pending list and its callback
  runs. A handle that is not pending runs nothing.\<close>

definition timeout_elapsed :: "nat \<Rightarrow> client \<Rightarrow> client" where
  "timeout_elapsed t c =
     (if map_of (timers c) t = None then c
      else reconnect_attempt (c\<lparr>timers := filter (\<lambda>(j, d). j \<noteq> t) (timers c)\<rparr>))"

definition closeStream :: "client \<Rightarrow> client" where
  "closeStream c =
     (let c1 = disconnectFromSignalServer c;
          c2 = (case stream c1 of None \<Rightarrow> c1 | Some tracks \<Rightarrow> log (map StopTrack tracks) c1)
      in c2\<lparr>stream := None\<rparr>)"

text \<open>\<open>openStream\<close>, from the point where \<open>getUserMedia\<close> has resolved with the new
  stream's tracks. The senders of a session are not part of the state: replacing their
  tracks is recorded as one call that names the new tracks.\<close>

definition openStream :: "track list \<Rightarrow> client \<Rightarrow> client" where
  "openStream media c =
     (let c1 = (case peerConnection c of None \<Rightarrow> c | Some pc \<Rightarrow> log [Call (ReplaceTracks media)] c);
          c2 = closeStream c1;
          c3 = c2\<lparr>stream := Some media\<rparr>
      in if socket c3 = None then connectToSignalServer c3 else c3)"

text \<open>\<open>close()\<close>; \<open>#listeners.clear()\<close> has no counterpart in the model.\<close>

definition close :: "client \<Rightarrow> client" where
  "close c =
     (let c1 = clearTimeout (reconnectTimer c) c;
          c2 = c1\<lparr>closed := True\<rparr>;
          c3 = (case socket c2 of None \<Rightarrow> c2 | Some s \<Rightarrow> log [SocketClose s] c2);
          c4 = c3\<lparr>peers := Map.empty\<rparr>
      in closeStream c4)"

text \<open>What the browser can do to a client on its own after a shutdown: open or close the
  socket, or run a timeout.\<close>

datatype browser_event = SocketOpened | SocketClosed | TimeoutElapsed nat

fun browser_step :: "browser_event \<Rightarrow> client \<Rightarrow> client" where
  "browser_step SocketOpened c = socket_onopen c"
| "browser_step SocketClosed c = socket_onclose c"
| "browser_step (TimeoutElapsed t) c = timeout_elapsed t c"

fun browser_run :: "browser_event list \<Rightarrow> client \<Rightarrow> client" where
  "browser_run [] c = c"
| "browser_run (ev # evs) c = browser_run evs (browser_step ev c)"

text \<open>A run of inbound relay frames, one after the other.\<close>

fun receive_all :: "server_message list \<Rightarrow> rtc_env \<Rightarrow> client \<Rightarrow> client" where
  "receive_all [] env c = c"
| "receive_all (m # ms) env c = receive_all ms env (handleServerMessage m env c)"

subsection \<open>Observers over a trace\<close>

text \<open>The candidates handed to \<open>addIceCandidate\<close>, the warnings, the sockets opened, the
  sockets on which the client called \<open>close()\<close>, and the frames written to the relay, each
  in trace order.\<close>

fun ice_calls :: "effect list \<Rightarrow> ice_init list" where
  "ice_calls [] = []"
| "ice_calls (Call (AddIceCandidate x) # es) = x # ice_calls es"
| "ice_calls (e # es) = ice_calls es"

fun warnings :: "effect list \<Rightarrow> warning list" where
  "warnings [] = []"
| "warnings (Warn w # es) = w # warnings es"
| "warnings (e # es) = warnings es"

fun opened :: "effect list \<Rightarrow> socket list" where
  "opened [] = []"
| "opened (OpenSocket s # es) = s # opened es"
| "opened (e # es) = opened es"

fun closing :: "effect list \<Rightarrow> socket list" where
  "closing [] = []"
| "closing (SocketClose s # es) = s # closing es"
| "closing (e # es) = closing es"

fun relayed :: "effect list \<Rightarrow> rtc_message list" where
  "relayed [] = []"
| "relayed (SocketSend s m # es) = m # relayed es"
| "relayed (e # es) = relayed es"

text \<open>Every pending timeout is the one the client holds in \<open>#reconnectTimer\<close>.\<close>

definition timers_held :: "client \<Rightarrow> bool" where
  "timers_held c = list_all (\<lambda>(t, d). reconnectTimer c = Some t) (timers c)"

subsection \<open>Scenario B, on Alice's side\<close>

text \<open>A transport on which everything resolves, except that the candidate \<open>bad\<close> is
  refused; Alice's client with her camera open, connected to the relay on socket 0 and
  knowing Bob; and the same client after \<open>invite\<close> of Bob.\<close>

definition env_ok :: rtc_env where
  "env_ok =
     \<lparr>createOffer_result = Some \<lparr>desc_type = ''offer'', desc_sdp = Some ''v=0''\<rparr>,
      createAnswer_result = Some \<lparr>desc_type = ''answer'', desc_sdp = Some ''v=0''\<rparr>,
      setLocalDescription_ok = (\<lambda>d. True),
      setRemoteDescription_ok = (\<lambda>d. True),
      addIceCandidate_ok = (\<lambda>x. x \<noteq> ''bad'')\<rparr>"

definition alice_idle :: client where
  "alice_idle =
     \<lparr>closed = False, version = ''v1'', client_id = ''a1'', client_name = ''Alice'',
      peerConnection = None, peers = [''b1'' \<mapsto> bob], reconnectTimer = None,
      socket = Some 0, stream = Some [''audio'', ''video''], timers = [], fresh = 1,
      trace = []\<rparr>"

definition bob_session :: peer_connection where
  "bob_session =
     \<lparr>pc_peer = bob,
      pc_connection = \<lparr>remoteDescription = None, onicecandidate = False\<rparr>,
      pc_channel = Connecting,
      pc_iceCandidates = []\<rparr>"

definition alice_offering :: client where
  "alice_offering =
     alice_idle
       \<lparr>peerConnection := Some bob_session,
        trace :=
          [Call NewRTCPeerConnection, Call CreateDataChannel,
           Call (AddTrack ''audio''), Call (AddTrack ''video''),
           Call CreateOffer,
           Call (SetLocalDescription \<lparr>desc_type = ''offer'', desc_sdp = Some ''v=0''\<rparr>),
           SocketSend 0
             (OfferMessage
                \<lparr>offer_type = ''offer'', offer_sdp = Some ''v=0'',
                 offer_source = ''a1'', offer_target = ''b1''\<rparr>)]\<rparr>"


text \<open>Bob's answer, candidates as they arrive at Alice, and Alice's client after four
  of them arrived during her invite: three from Bob, one from a stranger.\<close>

definition bob_answer :: answer where
  "bob_answer =
     \<lparr>offer_type = ''answer'', offer_sdp = Some ''v=0'',
      offer_source = ''b1'', offer_target = ''a1''\<rparr>"

definition ice_from :: "string \<Rightarrow> ice_init \<Rightarrow> ice_candidate" where
  "ice_from who x = \<lparr>ice_id = who, ice_target = ''a1'', ice_cand = x\<rparr>"

definition alice_queued :: client where
  "alice_queued =
     alice_offering
       \<lparr>peerConnection := Some (bob_session\<lparr>pc_iceCandidates := [''k1'', ''bad'', ''k3'']\<rparr>),
        trace := trace alice_offering @ [Warn (IgnoringIceCandidate ''z9'')]\<rparr>"

text \<open>A first run in which Alice switches camera right after opening the first one:
  \<open>openStream\<close> twice, the second closing socket 0 and opening socket 1, and then the
  close event of socket 0. Its handler clears \<open>#socket\<close> although socket 1 is the
  current one, so the \<open>ready\<close> frame of socket 1 finds the field unset.\<close>

definition alice_switching :: client where
  "alice_switching =
     socket_onclose (openStream [''video''] (openStream [''audio'', ''video''] (new_client (Some ''Alice''))))"

text \<open>Alice's client after her relay socket dropped: one reconnection timeout pending.\<close>

definition alice_dropped :: client where
  "alice_dropped =
     alice_idle
       \<lparr>socket := None, reconnectTimer := Some 1, timers := [(1, 1000)], fresh := 2,
        trace := [Emit Disconnected]\<rparr>"

section \<open>Properties of the relay\<close>

lemma sent_to_append: "sent_to s (xs @ ys) = sent_to s xs @ sent_to s ys"
  by (induction s xs rule: sent_to.induct) auto

lemma update_absent: "map_of al k = None \<Longrightarrow> AList.update k v al = al @ [(k, v)]"
  by (induction al) (auto split: if_splits)

lemma absent_key: "distinct (map fst ((s, p) # conns)) \<Longrightarrow> map_of conns s = None"
  by (auto simp: map_of_eq_None_iff)

text \<open>The registry stays a map: its keys stay distinct under both handlers.\<close>

lemma handleMessage_distinct:
  "distinct (map fst connections) \<Longrightarrow>
   distinct (map fst (snd (handleMessage msg sock connections)))"
  by (cases msg) (simp_all add: distinct_update)

lemma socket_close_distinct:
  "distinct (map fst connections) \<Longrightarrow>
   distinct (map fst (snd (socket_close sock connections)))"
  by (simp add: socket_close_def Let_def distinct_delete split: option.splits)

lemma sent_to_tell_existing:
  "sent_to s (tell_existing sock client conns) =
     (if s = sock then map (\<lambda>p. PeerMessage (p\<lparr>peer_remove := None\<rparr>)) (map snd conns) else [])"
  by (induction conns) (auto simp: notifyClient_def send_def)

lemma sent_to_announce_absent:
  "map_of conns s = None \<Longrightarrow> sent_to s (announce client conns) = []"
  by (induction conns) (auto simp: notifyClient_def send_def split: if_splits)

lemma sent_to_announce_present:
  "distinct (map fst conns) \<Longrightarrow> (s, p) \<in> set conns \<Longrightarrow>
   sent_to s (announce client conns) =
     (if peer_id p \<noteq> peer_id client then [PeerMessage (client\<lparr>peer_remove := None\<rparr>)] else [])"
proof (induction conns)
  case Nil
  then show ?case by simp
next
  case (Cons e conns)
  obtain s' p' where e: "e = (s', p')" by (cases e)
  show ?case
  proof (cases "s' = s")
    case True
    with Cons.prems e have "p' = p" and "map_of conns s = None"
      by (auto simp: map_of_eq_None_iff rev_image_eqI)
    with True e show ?thesis
      by (simp add: notifyClient_def send_def sent_to_append sent_to_announce_absent)
  next
    case False
    with Cons e show ?thesis
      by (auto simp: notifyClient_def send_def sent_to_append)
  qed
qed

lemma is_send_tell_existing: "list_all is_send (tell_existing sock client conns)"
  by (induction conns) (auto simp: notifyClient_def send_def)

lemma is_send_announce: "list_all is_send (announce client conns)"
  by (induction conns) (auto simp: notifyClient_def send_def)

lemma sent_to_tell_removed_absent:
  "map_of conns s = None \<Longrightarrow> sent_to s (tell_removed client conns) = []"
  by (induction conns) (auto simp: notifyClient_def send_def split: if_splits)

lemma sent_to_tell_removed_present:
  "distinct (map fst conns) \<Longrightarrow> (s, p) \<in> set conns \<Longrightarrow>
   sent_to s (tell_removed client conns) = [PeerMessage (client\<lparr>peer_remove := Some True\<rparr>)]"
proof (induction conns)
  case Nil
  then show ?case by simp
next
  case (Cons e conns)
  obtain s' p' where e: "e = (s', p')" by (cases e)
  show ?case
  proof (cases "s' = s")
    case True
    with Cons.prems e have "map_of conns s = None"
      by (auto simp: map_of_eq_None_iff rev_image_eqI)
    with True e show ?thesis
      by (simp add: notifyClient_def send_def sent_to_append sent_to_tell_removed_absent)
  next
    case False
    with Cons e show ?thesis
      by (auto simp: notifyClient_def send_def sent_to_append)
  qed
qed

lemma getConnection_find:
  "getConnection conns t = map_option fst (find (\<lambda>(s, p). peer_id p = t) conns)"
  by (induction conns) auto

lemma target_None_iff: "target msg = None \<longleftrightarrow> (\<exists>p. msg = IdentifyMessage p)"
  by (cases msg) auto

text \<open>
  C2. An \<open>identify\<close> from a connection that is not yet in the registry: the newcomer is
  sent one \<open>peer\<close> announcement, with no \<open>remove\<close>, for each registry entry, in registry
  order, and nothing else; every registered connection whose stored id differs from
  the new record's id is sent exactly the one announcement of the new record (one whose
  id equals it is sent nothing); every effect before the last is a send, and the last
  effect is the store of the record under the connection, which appends it to the
  registry.
\<close>

theorem identify_new_connection:
  assumes "map_of connections sock = None" and "distinct (map fst connections)"
  shows "sent_to sock (fst (handleMessage (IdentifyMessage client) sock connections)) =
           map (\<lambda>p. PeerMessage (p\<lparr>peer_remove := None\<rparr>)) (map snd connections)
       \<and> (\<forall>(psock, p) \<in> set connections.
           sent_to psock (fst (handleMessage (IdentifyMessage client) sock connections)) =
             (if peer_id p \<noteq> peer_id client
              then [PeerMessage (client\<lparr>peer_remove := None\<rparr>)] else []))
       \<and> list_all is_send (butlast (fst (handleMessage (IdentifyMessage client) sock connections)))
       \<and> last (fst (handleMessage (IdentifyMessage client) sock connections)) = Stored sock client
       \<and> snd (handleMessage (IdentifyMessage client) sock connections) = connections @ [(sock, client)]"
proof -
  let ?effs = "fst (handleMessage (IdentifyMessage client) sock connections)"
  have newcomer: "sent_to sock ?effs =
           map (\<lambda>p. PeerMessage (p\<lparr>peer_remove := None\<rparr>)) (map snd connections)"
    using assms(1) by (simp add: sent_to_append sent_to_tell_existing sent_to_announce_absent)
  have others: "\<forall>(psock, p) \<in> set connections. sent_to psock ?effs =
             (if peer_id p \<noteq> peer_id client
              then [PeerMessage (client\<lparr>peer_remove := None\<rparr>)] else [])"
  proof (clarify)
    fix psock p assume in_reg: "(psock, p) \<in> set connections"
    with assms(1) have "psock \<noteq> sock"
      by (auto simp: map_of_eq_None_iff rev_image_eqI)
    then show "sent_to psock ?effs =
             (if peer_id p \<noteq> peer_id client
              then [PeerMessage (client\<lparr>peer_remove := None\<rparr>)] else [])"
      using assms in_reg
      by (simp add: sent_to_append sent_to_tell_existing sent_to_announce_present)
  qed
  have sends: "list_all is_send (butlast ?effs)"
    by (simp add: butlast_append is_send_tell_existing is_send_announce)
  have store: "last ?effs = Stored sock client"
    by simp
  have commit: "snd (handleMessage (IdentifyMessage client) sock connections) =
      connections @ [(sock, client)]"
    using assms(1) by (simp add: update_absent)
  from newcomer others sends store commit show ?thesis by blast
qed

theorem identify_new_connection_witness:
  "map_of two_peers 3 = None \<and> distinct (map fst two_peers)
   \<and> handleMessage (IdentifyMessage carol) 3 two_peers =
       ([Sent 3 (PeerMessage alice), Sent 3 (PeerMessage bob),
         Sent 1 (PeerMessage carol), Sent 2 (PeerMessage carol), Stored 3 carol],
        [(1, alice), (2, bob), (3, carol)])
   \<and> sent_to 3 (fst (handleMessage (IdentifyMessage carol) 3 two_peers)) =
       [PeerMessage alice, PeerMessage bob]
   \<and> sent_to 1 (fst (handleMessage (IdentifyMessage carol) 3 two_peers)) = [PeerMessage carol]
   \<and> sent_to 2 (fst (handleMessage (IdentifyMessage carol) 3 two_peers)) = [PeerMessage carol]
   \<and> last (fst (handleMessage (IdentifyMessage carol) 3 two_peers)) = Stored 3 carol"
proof -
  have pre: "map_of two_peers 3 = None" "distinct (map fst two_peers)"
    by (simp_all add: two_peers_def)
  show ?thesis
    using pre identify_new_connection [OF pre, of carol]
    by (simp add: two_peers_def alice_def bob_def carol_def notifyClient_def send_def)
qed

text \<open>
  C6. A frame other than \<open>identify\<close> (one that carries a target): when some registry
  entry has the target as its id, the only effect is one send of the unmodified frame to
  the socket of such an entry (the first in registry order); when no entry has it,
  there is no effect at all, so nothing goes back to the sender. The registry is
  unchanged either way.
\<close>

theorem route_by_target:
  assumes "target msg = Some t"
  shows "((\<exists>(s, p) \<in> set connections. peer_id p = t) \<longrightarrow>
           (\<exists>s p. find (\<lambda>(s, p). peer_id p = t) connections = Some (s, p)
              \<and> (s, p) \<in> set connections \<and> peer_id p = t
              \<and> handleMessage msg sender connections = ([Sent s (Rtc msg)], connections)))
       \<and> ((\<forall>(s, p) \<in> set connections. peer_id p \<noteq> t) \<longrightarrow>
           handleMessage msg sender connections = ([], connections))"
proof (intro conjI impI)
  from assms have route: "handleMessage msg sender connections =
      (send (getConnection connections t) (Rtc msg), connections)"
    by (cases msg) simp_all
  {
    assume "\<exists>(s, p) \<in> set connections. peer_id p = t"
    then obtain e where "find (\<lambda>(s, p). peer_id p = t) connections = Some e"
      by (cases "find (\<lambda>(s, p). peer_id p = t) connections") (auto simp: find_None_iff)
    moreover obtain s p where "e = (s, p)" by (cases e)
    ultimately have found: "find (\<lambda>(s, p). peer_id p = t) connections = Some (s, p)"
      by simp
    then have "(s, p) \<in> set connections" and "peer_id p = t"
      by (auto simp: find_Some_iff in_set_conv_nth)
    with found route
    show "\<exists>s p. find (\<lambda>(s, p). peer_id p = t) connections = Some (s, p)
              \<and> (s, p) \<in> set connections \<and> peer_id p = t
              \<and> handleMessage msg sender connections = ([Sent s (Rtc msg)], connections)"
      by (simp add: getConnection_find send_def)
  }
  {
    assume "\<forall>(s, p) \<in> set connections. peer_id p \<noteq> t"
    then have "find (\<lambda>(s, p). peer_id p = t) connections = None"
      by (auto simp: find_None_iff)
    with route show "handleMessage msg sender connections = ([], connections)"
      by (simp add: getConnection_find send_def)
  }
qed

theorem route_by_target_witness:
  "target (RejectMessage \<lparr>rej_source = ''a1'', rej_target = ''b1''\<rparr>) = Some ''b1''
   \<and> (bob \<in> snd ` set two_peers \<and> peer_id bob = ''b1'')
   \<and> handleMessage (RejectMessage \<lparr>rej_source = ''a1'', rej_target = ''b1''\<rparr>) 1 two_peers =
       ([Sent 2 (Rtc (RejectMessage \<lparr>rej_source = ''a1'', rej_target = ''b1''\<rparr>))], two_peers)
   \<and> target (RejectMessage \<lparr>rej_source = ''a1'', rej_target = ''zz''\<rparr>) = Some ''zz''
   \<and> list_all (\<lambda>(s, p). peer_id p \<noteq> ''zz'') two_peers
   \<and> handleMessage (RejectMessage \<lparr>rej_source = ''a1'', rej_target = ''zz''\<rparr>) 1 two_peers =
       ([], two_peers)"
  using route_by_target [of "RejectMessage \<lparr>rej_source = ''a1'', rej_target = ''b1''\<rparr>" "''b1''" two_peers 1]
    route_by_target [of "RejectMessage \<lparr>rej_source = ''a1'', rej_target = ''zz''\<rparr>" "''zz''" two_peers 1]
  by (simp add: two_peers_def alice_def bob_def send_def)

text \<open>
  C7. The close of a registered connection removes its entry and nothing else from the
  registry, and sends every remaining connection exactly one \<open>peer\<close> frame describing
  the removed entry with \<open>remove: true\<close>; the closed connection itself is sent nothing.
  The close of a connection that was never registered has no effect.
\<close>

theorem close_broadcasts_removal:
  assumes "distinct (map fst connections)"
  shows "(\<forall>client. map_of connections sock = Some client \<longrightarrow>
            snd (socket_close sock connections) = filter (\<lambda>(s, p). s \<noteq> sock) connections
          \<and> map_of (snd (socket_close sock connections)) sock = None
          \<and> (\<forall>(s, p) \<in> set (snd (socket_close sock connections)).
               sent_to s (fst (socket_close sock connections)) =
                 [PeerMessage (client\<lparr>peer_remove := Some True\<rparr>)])
          \<and> sent_to sock (fst (socket_close sock connections)) = []
          \<and> length (filter is_send (fst (socket_close sock connections))) =
               length (snd (socket_close sock connections)))
       \<and> (map_of connections sock = None \<longrightarrow> socket_close sock connections = ([], connections))"
proof (intro conjI allI impI)
  fix client assume reg: "map_of connections sock = Some client"
  let ?rest = "AList.delete sock connections"
  have res: "socket_close sock connections = (Deleted sock # tell_removed client ?rest, ?rest)"
    using reg by (simp add: socket_close_def Let_def)
  have gone: "map_of ?rest sock = None"
    by (simp add: delete_conv')
  have dist: "distinct (map fst ?rest)"
    using assms by (rule distinct_delete)
  show "snd (socket_close sock connections) = filter (\<lambda>(s, p). s \<noteq> sock) connections"
    by (simp add: res AList.delete_eq) (metis (mono_tags, lifting) case_prod_beta' filter_cong)
  show "map_of (snd (socket_close sock connections)) sock = None"
    by (simp add: res gone)
  show "\<forall>(s, p) \<in> set (snd (socket_close sock connections)).
               sent_to s (fst (socket_close sock connections)) =
                 [PeerMessage (client\<lparr>peer_remove := Some True\<rparr>)]"
    using dist by (auto simp: res sent_to_tell_removed_present)
  show "sent_to sock (fst (socket_close sock connections)) = []"
    using gone by (simp add: res sent_to_tell_removed_absent)
  have "length (filter is_send (tell_removed client conns)) = length conns" for conns
    by (induction conns) (auto simp: notifyClient_def send_def)
  then show "length (filter is_send (fst (socket_close sock connections))) =
               length (snd (socket_close sock connections))"
    by (simp add: res)
next
  assume "map_of connections sock = None"
  then show "socket_close sock connections = ([], connections)"
    by (simp add: socket_close_def)
qed

theorem close_broadcasts_removal_witness:
  "distinct (map fst ((3, carol) # two_peers))
   \<and> map_of ((3, carol) # two_peers) 1 = Some alice
   \<and> socket_close 1 ((3, carol) # two_peers) =
       ([Deleted 1, Sent 3 (PeerMessage (alice\<lparr>peer_remove := Some True\<rparr>)),
         Sent 2 (PeerMessage (alice\<lparr>peer_remove := Some True\<rparr>))],
        [(3, carol), (2, bob)])
   \<and> map_of ((3, carol) # two_peers) 7 = None
   \<and> socket_close 7 ((3, carol) # two_peers) = ([], (3, carol) # two_peers)"
proof -
  have pre: "distinct (map fst ((3, carol) # two_peers))"
    by (simp add: two_peers_def)
  show ?thesis
    using pre close_broadcasts_removal [OF pre, of 1] close_broadcasts_removal [OF pre, of 7]
    by (simp add: two_peers_def socket_close_def notifyClient_def send_def AList.delete_eq)
qed

section \<open>Properties of the client\<close>

lemma alice_invites_bob: "invite ''b1'' env_ok alice_idle = (Inr (), alice_offering)"
  by (simp add: invite_def createPeerConnection_def sendToSignalServer_def log_def
      alice_idle_def alice_offering_def bob_session_def env_ok_def Let_def)

text \<open>
  C1. The session is the one field \<open>peerConnection\<close>, so a client holds at most one.
  While it is set, \<open>invite\<close> and \<open>accept\<close> fail at their first statement, before any
  \<open>await\<close>, and return the client exactly as it was: same session, peers, socket and
  trace. The error is "Client already has an active peer connection", or "Stream must be
  open to create a peer connection" when the stream has been closed meanwhile.
\<close>

theorem session_conflict:
  assumes "peerConnection c \<noteq> None"
  shows "invite peerId env c =
           (Inl (if stream c = None then StreamMustBeOpen else ActivePeerConnection), c)
       \<and> accept ofr env c =
           (Inl (if stream c = None then StreamMustBeOpen else ActivePeerConnection), c)"
  using assms
  by (simp add: invite_def accept_def createPeerConnection_def split: option.splits)

theorem session_conflict_witness:
  "peerConnection alice_offering \<noteq> None
   \<and> invite ''b1'' env_ok alice_offering = (Inl ActivePeerConnection, alice_offering)
   \<and> accept \<lparr>offer_type = ''offer'', offer_sdp = Some ''v=0'', offer_source = ''b1'',
              offer_target = ''a1''\<rparr> env_ok alice_offering
       = (Inl ActivePeerConnection, alice_offering)"
proof -
  have pre: "peerConnection alice_offering \<noteq> None"
    by (simp add: alice_offering_def)
  have st: "stream alice_offering \<noteq> None"
    by (simp add: alice_offering_def alice_idle_def)
  show ?thesis
    using pre st session_conflict [OF pre, of "''b1''" env_ok
        "\<lparr>offer_type = ''offer'', offer_sdp = Some ''v=0'', offer_source = ''b1'',
              offer_target = ''a1''\<rparr>"]
    by simp
qed

text \<open>
  C10. \<open>disconnect()\<close> with no session throws "No peer connection" and returns the client
  exactly as it was: nothing is sent on a channel, nothing is closed and no
  \<open>peerdisconnected\<close> is emitted.
\<close>

theorem disconnect_without_session:
  assumes "peerConnection c = None"
  shows "disconnect c = (Inl NoPeerConnection, c)"
  using assms by (simp add: disconnect_def sendToPeer_def getPeerConnection_def)

theorem disconnect_without_session_witness:
  "peerConnection alice_idle = None \<and> disconnect alice_idle = (Inl NoPeerConnection, alice_idle)"
proof -
  have pre: "peerConnection alice_idle = None"
    by (simp add: alice_idle_def)
  show ?thesis
    using pre disconnect_without_session [OF pre] by simp
qed




text \<open>
  What the \<open>ready\<close> branch computes. A cached version that differs from the frame's
  reloads the page and sends nothing. Otherwise the client adopts the version if it had
  none and records the assigned id; \<open>identify {id, name}\<close> is then written to the socket
  in the \<open>#socket\<close> field, and when the field is unset \<open>#sendToSignalServer\<close> throws
  "Client is not connected", which the \<open>catch\<close> logs.
\<close>

lemma ready_handshake:
  "(version c \<noteq> [] \<and> version c \<noteq> v \<longrightarrow>
      handleServerMessage (ReadyMessage v i) env c = c\<lparr>trace := trace c @ [Reload]\<rparr>)
   \<and> (version c = [] \<or> version c = v \<longrightarrow>
        (\<forall>s. socket c = Some s \<longrightarrow>
           handleServerMessage (ReadyMessage v i) env c =
             c\<lparr>version := v, client_id := i,
               trace := trace c
                 @ [SocketSend s
                      (IdentifyMessage
                         \<lparr>peer_id = i, peer_name = client_name c, peer_remove = None\<rparr>)]\<rparr>)
      \<and> (socket c = None \<longrightarrow>
           handleServerMessage (ReadyMessage v i) env c =
             c\<lparr>version := v, client_id := i,
               trace := trace c @ [Warn (Caught ClientNotConnected)]\<rparr>))"
  by (auto simp: sendToSignalServer_def log_def Let_def)

lemma ready_handshake_example:
  "version alice_idle \<noteq> [] \<and> version alice_idle \<noteq> ''v2''
   \<and> handleServerMessage (ReadyMessage ''v2'' ''a7'') env_ok alice_idle =
       alice_idle\<lparr>trace := [Reload]\<rparr>
   \<and> version alice_idle = ''v1'' \<and> socket alice_idle = Some 0
   \<and> handleServerMessage (ReadyMessage ''v1'' ''a7'') env_ok alice_idle =
       alice_idle
         \<lparr>client_id := ''a7'',
          trace :=
            [SocketSend 0
               (IdentifyMessage \<lparr>peer_id = ''a7'', peer_name = ''Alice'', peer_remove = None\<rparr>)]\<rparr>
   \<and> version (openStream [''video''] (new_client (Some ''Bob''))) = []
   \<and> socket (openStream [''video''] (new_client (Some ''Bob''))) = Some 0
   \<and> handleServerMessage (ReadyMessage ''v1'' ''b1'') env_ok
        (openStream [''video''] (new_client (Some ''Bob''))) =
       (openStream [''video''] (new_client (Some ''Bob'')))
         \<lparr>version := ''v1'', client_id := ''b1'',
          trace :=
            [OpenSocket 0,
             SocketSend 0
               (IdentifyMessage \<lparr>peer_id = ''b1'', peer_name = ''Bob'', peer_remove = None\<rparr>)]\<rparr>
   \<and> socket alice_dropped = None
   \<and> handleServerMessage (ReadyMessage ''v1'' ''a7'') env_ok alice_dropped =
       alice_dropped\<lparr>client_id := ''a7'',
          trace := [Emit Disconnected, Warn (Caught ClientNotConnected)]\<rparr>"
proof -
  have bob_first: "openStream [''video''] (new_client (Some ''Bob'')) =
      \<lparr>closed = False, version = [], client_id = [], client_name = ''Bob'',
       peerConnection = None, peers = Map.empty, reconnectTimer = None, socket = Some 0,
       stream = Some [''video''], timers = [], fresh = 1, trace = [OpenSocket 0]\<rparr>"
    by (simp add: openStream_def closeStream_def disconnectFromSignalServer_def
        connectToSignalServer_def log_def new_client_def Let_def)
  show ?thesis
    using ready_handshake [of alice_idle "''v2''" "''a7''" env_ok]
      ready_handshake [of alice_idle "''v1''" "''a7''" env_ok]
      ready_handshake [of "openStream [''video''] (new_client (Some ''Bob''))" "''v1''" "''b1''" env_ok]
      ready_handshake [of alice_dropped "''v1''" "''a7''" env_ok]
    by (simp add: bob_first alice_idle_def alice_dropped_def)
qed

text \<open>The state of \<open>alice_switching\<close>, computed: sockets 0 and 1 were opened, \<open>close()\<close> was
  called on socket 0 only, and yet the \<open>#socket\<close> field is unset and a reconnection
  timeout is pending.\<close>

lemma alice_switching_state:
  "alice_switching =
     \<lparr>closed = False, version = [], client_id = [], client_name = ''Alice'',
      peerConnection = None, peers = Map.empty, reconnectTimer = Some 2, socket = None,
      stream = Some [''video''], timers = [(2, 1000)], fresh = 3,
      trace = [OpenSocket 0, SocketClose 0, StopTrack ''audio'', StopTrack ''video'',
               OpenSocket 1, Emit Disconnected]\<rparr>"
  by (simp add: alice_switching_def socket_onclose_def openStream_def closeStream_def
      disconnectFromSignalServer_def connectToSignalServer_def reconnectToSignalServer_def
      clearTimeout_def reconnect_delay_def emit_def log_def new_client_def Let_def)

text \<open>
  C5. On \<open>ready {version, id}\<close> with no cached version the client is to adopt the
  version, record the id and send \<open>identify {id, name}\<close> to the relay. The code misses
  the last step in \<open>alice_switching\<close>: socket 1 is open and delivers its \<open>ready\<close> frame,
  but the close event of socket 0 has cleared \<open>#socket\<close>, so the client takes the version
  and the id, \<open>#sendToSignalServer\<close> throws "Client is not connected", and no \<open>identify\<close>
  is written to any socket.
\<close>

theorem ready_on_second_socket_sends_no_identify:
  "version alice_switching = []
   \<and> opened (trace alice_switching) = [0, 1] \<and> closing (trace alice_switching) = [0]
   \<and> socket alice_switching = None
   \<and> relayed (trace (handleServerMessage (ReadyMessage ''v1'' ''a1'') env_ok alice_switching)) = []
   \<and> handleServerMessage (ReadyMessage ''v1'' ''a1'') env_ok alice_switching =
       alice_switching
         \<lparr>version := ''v1'', client_id := ''a1'',
          trace := trace alice_switching @ [Warn (Caught ClientNotConnected)]\<rparr>"
  by (simp add: alice_switching_state sendToSignalServer_def log_def)

text \<open>
  C4. Alice is offering to Bob (\<open>b1\<close>) when a \<open>reject\<close> whose source is \<open>c1\<close> arrives: the
  handler closes the channel and the transport, drops the session and emits
  \<open>peerdisconnected\<close> for Bob. The \<open>reject\<close> case never looks at the source.
\<close>

theorem reject_from_stranger_closes_session:
  "map_option (\<lambda>pc. peer_id (pc_peer pc)) (peerConnection alice_offering) = Some ''b1''
   \<and> handleServerMessage (Rtc (RejectMessage \<lparr>rej_source = ''c1'', rej_target = ''a1''\<rparr>))
       env_ok alice_offering =
     alice_offering
       \<lparr>peerConnection := None,
        trace := trace alice_offering
          @ [Call ChannelClose, Call ConnectionClose, Emit (PeerDisconnected ''b1'')]\<rparr>"
  by (simp add: closeConnection_def emit_def log_def alice_offering_def bob_session_def bob_def)

text \<open>The sibling case does look: an \<open>accept\<close> whose source is not the session's peer
  leaves the session as it is; the error rejects the promise that nobody awaits.\<close>

lemma accept_from_stranger_ignored:
  assumes "peerConnection c = Some pc" and "offer_source ans \<noteq> peer_id (pc_peer pc)"
  shows "handleServerMessage (Rtc (AcceptMessage ans)) env c = log [Unhandled DescriptionMismatch] c"
  using assms
  by (auto simp: connectToPeer_def setRemoteDescription_def getPeerConnection_def)

lemma ice_calls_append: "ice_calls (xs @ ys) = ice_calls xs @ ice_calls ys"
  by (induction xs rule: ice_calls.induct) auto

lemma warnings_append: "warnings (xs @ ys) = warnings xs @ warnings ys"
  by (induction xs rule: warnings.induct) auto

lemma ice_calls_drain: "ice_calls (drain queue env) = queue"
  by (induction queue) auto

lemma warnings_drain:
  "warnings (drain queue env) =
     map ErrorAddingIceCandidate (filter (\<lambda>x. \<not> addIceCandidate_ok env x) queue)"
  by (induction queue) auto

lemma ice_mismatch:
  assumes "peerConnection c = Some pc" and "ice_id x \<noteq> peer_id (pc_peer pc)"
  shows "handleServerMessage (Rtc (IceCandidateMessage x)) env c =
           log [Warn (IgnoringIceCandidate (ice_id x))] c"
  using assms by (simp add: addIceCandidate_def getPeerConnection_def)

lemma ice_queued:
  assumes "peerConnection c = Some pc" and "ice_id x = peer_id (pc_peer pc)"
    and "remoteDescription (pc_connection pc) = None"
  shows "handleServerMessage (Rtc (IceCandidateMessage x)) env c =
           c\<lparr>peerConnection := Some (pc\<lparr>pc_iceCandidates := pc_iceCandidates pc @ [ice_cand x]\<rparr>)\<rparr>"
  using assms by (simp add: addIceCandidate_def getPeerConnection_def)

lemma ice_applied:
  assumes "peerConnection c = Some pc" and "ice_id x = peer_id (pc_peer pc)"
    and "remoteDescription (pc_connection pc) \<noteq> None"
  shows "handleServerMessage (Rtc (IceCandidateMessage x)) env c =
           log (Call (AddIceCandidate (ice_cand x))
                  # (if addIceCandidate_ok env (ice_cand x) then []
                     else [Warn (ErrorAddingIceCandidate (ice_cand x))])) c"
  using assms by (simp add: addIceCandidate_def getPeerConnection_def)

lemma ice_sequence_queued:
  assumes "peerConnection c = Some pc" and "remoteDescription (pc_connection pc) = None"
  shows "receive_all (map (\<lambda>x. Rtc (IceCandidateMessage x)) xs) env c =
     c\<lparr>peerConnection :=
          Some (pc\<lparr>pc_iceCandidates :=
                     pc_iceCandidates pc
                     @ map ice_cand (filter (\<lambda>x. ice_id x = peer_id (pc_peer pc)) xs)\<rparr>),
        trace :=
          trace c
          @ map (\<lambda>x. Warn (IgnoringIceCandidate (ice_id x)))
              (filter (\<lambda>x. ice_id x \<noteq> peer_id (pc_peer pc)) xs)\<rparr>"
  using assms
proof (induction xs arbitrary: c pc)
  case Nil
  then show ?case by simp
next
  case (Cons x xs)
  show ?case
  proof (cases "ice_id x = peer_id (pc_peer pc)")
    case True
    let ?pc = "pc\<lparr>pc_iceCandidates := pc_iceCandidates pc @ [ice_cand x]\<rparr>"
    let ?c = "c\<lparr>peerConnection := Some ?pc\<rparr>"
    have step: "handleServerMessage (Rtc (IceCandidateMessage x)) env c = ?c"
      by (rule ice_queued [OF Cons.prems(1) True Cons.prems(2)])
    have "peerConnection ?c = Some ?pc" and "remoteDescription (pc_connection ?pc) = None"
      using Cons.prems by simp_all
    from Cons.IH [OF this] step True show ?thesis
      by simp
  next
    case False
    let ?c = "log [Warn (IgnoringIceCandidate (ice_id x))] c"
    have step: "handleServerMessage (Rtc (IceCandidateMessage x)) env c = ?c"
      by (rule ice_mismatch [OF Cons.prems(1) False])
    have "peerConnection ?c = Some pc"
      using Cons.prems by (simp add: log_def)
    from Cons.IH [OF this Cons.prems(2)] step False show ?thesis
      by (simp add: log_def)
  qed
qed

lemma remote_description_drains:
  assumes "peerConnection c = Some pc" and "offer_source a = peer_id (pc_peer pc)"
    and "setRemoteDescription_ok env a"
  shows "setRemoteDescription a env c =
     (Inr (),
      c\<lparr>peerConnection :=
          Some (pc\<lparr>pc_connection := (pc_connection pc)\<lparr>remoteDescription := Some a\<rparr>,
                   pc_iceCandidates := []\<rparr>),
        trace := trace c @ Call (SetRemoteDescription a) # drain (pc_iceCandidates pc) env\<rparr>)"
  using assms by (simp add: setRemoteDescription_def getPeerConnection_def log_def Let_def)

text \<open>
  C3. With a session for peer \<open>P\<close>:
  a candidate whose id is not \<open>P\<close> only adds a warning, the queue is untouched;
  while no remote description is set, any run of \<open>icecandidate\<close> frames appends exactly
  the candidates whose id is \<open>P\<close> to the queue, in arrival order, warns once for each
  other one and applies none;
  \<open>#setRemoteDescription\<close> with a matching source on a transport that accepts the
  description hands the whole queue to \<open>addIceCandidate\<close> in queue order, whichever of the
  calls fail, warns once per failed call, and leaves the queue empty;
  once the remote description is set, a candidate from \<open>P\<close> is applied at once and the
  queue is not used again.
\<close>

theorem ice_candidates_queue_and_drain:
  assumes "peerConnection c = Some pc"
  shows "(\<forall>x. ice_id x \<noteq> peer_id (pc_peer pc) \<longrightarrow>
            handleServerMessage (Rtc (IceCandidateMessage x)) env c =
              c\<lparr>trace := trace c @ [Warn (IgnoringIceCandidate (ice_id x))]\<rparr>)
       \<and> (remoteDescription (pc_connection pc) = None \<longrightarrow>
            (\<forall>xs. receive_all (map (\<lambda>x. Rtc (IceCandidateMessage x)) xs) env c =
               c\<lparr>peerConnection :=
                    Some (pc\<lparr>pc_iceCandidates :=
                               pc_iceCandidates pc
                               @ map ice_cand (filter (\<lambda>x. ice_id x = peer_id (pc_peer pc)) xs)\<rparr>),
                  trace :=
                    trace c
                    @ map (\<lambda>x. Warn (IgnoringIceCandidate (ice_id x)))
                        (filter (\<lambda>x. ice_id x \<noteq> peer_id (pc_peer pc)) xs)\<rparr>))
       \<and> (\<forall>a. offer_source a = peer_id (pc_peer pc) \<and> setRemoteDescription_ok env a \<longrightarrow>
            fst (setRemoteDescription a env c) = Inr ()
          \<and> peerConnection (snd (setRemoteDescription a env c)) =
              Some (pc\<lparr>pc_connection := (pc_connection pc)\<lparr>remoteDescription := Some a\<rparr>,
                       pc_iceCandidates := []\<rparr>)
          \<and> ice_calls (trace (snd (setRemoteDescription a env c))) =
              ice_calls (trace c) @ pc_iceCandidates pc
          \<and> warnings (trace (snd (setRemoteDescription a env c))) =
              warnings (trace c)
              @ map ErrorAddingIceCandidate
                  (filter (\<lambda>x. \<not> addIceCandidate_ok env x) (pc_iceCandidates pc)))
       \<and> (remoteDescription (pc_connection pc) \<noteq> None \<longrightarrow>
            (\<forall>x. ice_id x = peer_id (pc_peer pc) \<longrightarrow>
               handleServerMessage (Rtc (IceCandidateMessage x)) env c =
                 c\<lparr>trace := trace c
                     @ Call (AddIceCandidate (ice_cand x))
                       # (if addIceCandidate_ok env (ice_cand x) then []
                          else [Warn (ErrorAddingIceCandidate (ice_cand x))])\<rparr>))"
proof (intro conjI allI impI)
  fix x :: ice_candidate assume neq: "ice_id x \<noteq> peer_id (pc_peer pc)"
  from ice_mismatch [OF assms neq, unfolded log_def]
  show "handleServerMessage (Rtc (IceCandidateMessage x)) env c =
              c\<lparr>trace := trace c @ [Warn (IgnoringIceCandidate (ice_id x))]\<rparr>" .
next
  fix xs :: "ice_candidate list" assume "remoteDescription (pc_connection pc) = None"
  with assms show "receive_all (map (\<lambda>x. Rtc (IceCandidateMessage x)) xs) env c =
               c\<lparr>peerConnection :=
                    Some (pc\<lparr>pc_iceCandidates :=
                               pc_iceCandidates pc
                               @ map ice_cand (filter (\<lambda>x. ice_id x = peer_id (pc_peer pc)) xs)\<rparr>),
                  trace :=
                    trace c
                    @ map (\<lambda>x. Warn (IgnoringIceCandidate (ice_id x)))
                        (filter (\<lambda>x. ice_id x \<noteq> peer_id (pc_peer pc)) xs)\<rparr>"
    by (rule ice_sequence_queued)
next
  fix a :: offer assume a: "offer_source a = peer_id (pc_peer pc) \<and> setRemoteDescription_ok env a"
  note res = remote_description_drains [OF assms conjunct1 [OF a] conjunct2 [OF a]]
  show "fst (setRemoteDescription a env c) = Inr ()"
    by (simp add: res)
  show "peerConnection (snd (setRemoteDescription a env c)) =
              Some (pc\<lparr>pc_connection := (pc_connection pc)\<lparr>remoteDescription := Some a\<rparr>,
                       pc_iceCandidates := []\<rparr>)"
    by (simp add: res)
  show "ice_calls (trace (snd (setRemoteDescription a env c))) =
              ice_calls (trace c) @ pc_iceCandidates pc"
    by (simp add: res ice_calls_append ice_calls_drain)
  show "warnings (trace (snd (setRemoteDescription a env c))) =
              warnings (trace c)
              @ map ErrorAddingIceCandidate
                  (filter (\<lambda>x. \<not> addIceCandidate_ok env x) (pc_iceCandidates pc))"
    by (simp add: res warnings_append warnings_drain)
next
  fix x :: ice_candidate
  assume set: "remoteDescription (pc_connection pc) \<noteq> None"
    and eq: "ice_id x = peer_id (pc_peer pc)"
  from ice_applied [OF assms eq set, unfolded log_def]
  show "handleServerMessage (Rtc (IceCandidateMessage x)) env c =
                 c\<lparr>trace := trace c
                     @ Call (AddIceCandidate (ice_cand x))
                       # (if addIceCandidate_ok env (ice_cand x) then []
                          else [Warn (ErrorAddingIceCandidate (ice_cand x))])\<rparr>" .
qed

theorem ice_candidates_queue_and_drain_witness:
  "peerConnection alice_offering = Some bob_session
   \<and> remoteDescription (pc_connection bob_session) = None
   \<and> receive_all
        (map (\<lambda>x. Rtc (IceCandidateMessage x))
           [ice_from ''b1'' ''k1'', ice_from ''z9'' ''k2'', ice_from ''b1'' ''bad'',
            ice_from ''b1'' ''k3''])
        env_ok alice_offering = alice_queued
   \<and> offer_source bob_answer = peer_id (pc_peer bob_session)
   \<and> setRemoteDescription_ok env_ok bob_answer
   \<and> fst (setRemoteDescription bob_answer env_ok alice_queued) = Inr ()
   \<and> map_option pc_iceCandidates (peerConnection (snd (setRemoteDescription bob_answer env_ok alice_queued))) = Some []
   \<and> ice_calls (trace (snd (setRemoteDescription bob_answer env_ok alice_queued))) =
       [''k1'', ''bad'', ''k3'']
   \<and> warnings (trace (snd (setRemoteDescription bob_answer env_ok alice_queued))) =
       [IgnoringIceCandidate ''z9'', ErrorAddingIceCandidate ''bad'']
   \<and> ice_calls (trace (handleServerMessage (Rtc (IceCandidateMessage (ice_from ''b1'' ''k4''))) env_ok
        (snd (setRemoteDescription bob_answer env_ok alice_queued)))) =
       [''k1'', ''bad'', ''k3'', ''k4'']"
proof -
  have pre: "peerConnection alice_offering = Some bob_session"
    by (simp add: alice_offering_def)
  have pre2: "peerConnection alice_queued =
      Some (bob_session\<lparr>pc_iceCandidates := [''k1'', ''bad'', ''k3'']\<rparr>)"
    by (simp add: alice_queued_def)
  have rd: "remoteDescription (pc_connection bob_session) = None"
    by (simp add: bob_session_def)
  note queue = ice_candidates_queue_and_drain [OF pre, of env_ok, THEN conjunct2, THEN conjunct1,
      rule_format, OF rd]
  have "receive_all
        (map (\<lambda>x. Rtc (IceCandidateMessage x))
           [ice_from ''b1'' ''k1'', ice_from ''z9'' ''k2'', ice_from ''b1'' ''bad'',
            ice_from ''b1'' ''k3''])
        env_ok alice_offering =
      alice_offering
        \<lparr>peerConnection :=
           Some (bob_session\<lparr>pc_iceCandidates :=
                   pc_iceCandidates bob_session
                   @ map ice_cand (filter (\<lambda>x. ice_id x = peer_id (pc_peer bob_session))
                       [ice_from ''b1'' ''k1'', ice_from ''z9'' ''k2'', ice_from ''b1'' ''bad'',
                        ice_from ''b1'' ''k3''])\<rparr>),
         trace :=
           trace alice_offering
           @ map (\<lambda>x. Warn (IgnoringIceCandidate (ice_id x)))
               (filter (\<lambda>x. ice_id x \<noteq> peer_id (pc_peer bob_session))
                  [ice_from ''b1'' ''k1'', ice_from ''z9'' ''k2'', ice_from ''b1'' ''bad'',
                   ice_from ''b1'' ''k3''])\<rparr>"
    by (rule queue)
  also have "\<dots> = alice_queued"
    by (simp add: alice_queued_def bob_session_def bob_def ice_from_def)
  finally have queued: "receive_all
        (map (\<lambda>x. Rtc (IceCandidateMessage x))
           [ice_from ''b1'' ''k1'', ice_from ''z9'' ''k2'', ice_from ''b1'' ''bad'',
            ice_from ''b1'' ''k3''])
        env_ok alice_offering = alice_queued" .
  have drained: "fst (setRemoteDescription bob_answer env_ok alice_queued) = Inr ()
     \<and> map_option pc_iceCandidates (peerConnection (snd (setRemoteDescription bob_answer env_ok alice_queued))) = Some []
     \<and> ice_calls (trace (snd (setRemoteDescription bob_answer env_ok alice_queued))) =
       [''k1'', ''bad'', ''k3'']
     \<and> warnings (trace (snd (setRemoteDescription bob_answer env_ok alice_queued))) =
       [IgnoringIceCandidate ''z9'', ErrorAddingIceCandidate ''bad'']"
    using ice_candidates_queue_and_drain [OF pre2, of env_ok]
    by (simp add: alice_queued_def alice_offering_def alice_idle_def bob_session_def bob_def
        bob_answer_def env_ok_def)
  have later: "ice_calls (trace (handleServerMessage (Rtc (IceCandidateMessage (ice_from ''b1'' ''k4''))) env_ok
        (snd (setRemoteDescription bob_answer env_ok alice_queued)))) =
       [''k1'', ''bad'', ''k3'', ''k4'']"
    by (simp add: setRemoteDescription_def getPeerConnection_def addIceCandidate_def log_def
        alice_queued_def alice_offering_def alice_idle_def bob_session_def bob_def
        bob_answer_def env_ok_def ice_from_def Let_def)
  from pre queued drained later show ?thesis
    by (simp add: bob_session_def bob_answer_def bob_def env_ok_def)
qed

lemma opened_append: "opened (xs @ ys) = opened xs @ opened ys"
  by (induction xs rule: opened.induct) auto

lemma opened_StopTrack: "opened (map StopTrack ts) = []"
  by (induction ts) auto

lemma held_cleared:
  "list_all (\<lambda>(t, d). r = Some t) ts \<Longrightarrow>
   (case r of None \<Rightarrow> ts | Some i \<Rightarrow> filter (\<lambda>(j, d). j \<noteq> i) ts) = []"
  by (induction ts) (auto split: option.splits)

lemma clearTimeout_held:
  "timers_held c \<Longrightarrow> timers (clearTimeout (reconnectTimer c) c) = []"
  using held_cleared [of "reconnectTimer c" "timers c"]
  by (auto simp: timers_held_def clearTimeout_def split: option.splits)

lemma reconnect_schedules_one:
  assumes "timers_held c"
  shows "timers (reconnectToSignalServer c) = [(fresh c, reconnect_delay)]"
    and "reconnectTimer (reconnectToSignalServer c) = Some (fresh c)"
    and "trace (reconnectToSignalServer c) = trace c"
    and "socket (reconnectToSignalServer c) = socket c"
  using clearTimeout_held [OF assms]
  by (auto simp: reconnectToSignalServer_def Let_def clearTimeout_def split: option.splits)

lemma pending_is_held:
  assumes "timers_held c" and "map_of (timers c) t \<noteq> None"
  shows "reconnectTimer c = Some t"
proof -
  from assms(2) obtain d where "(t, d) \<in> set (timers c)"
    by (auto dest: map_of_SomeD)
  with assms(1) show ?thesis
    by (auto simp: timers_held_def list_all_iff)
qed

lemma pending_filtered:
  assumes "timers_held c" and "map_of (timers c) t \<noteq> None"
  shows "filter (\<lambda>(j, d). j \<noteq> t) (timers c) = []"
  using held_cleared [of "reconnectTimer c" "timers c"] assms pending_is_held [OF assms]
  by (simp add: timers_held_def)

text \<open>The invariant holds at the start and under every step that touches a timer.\<close>

lemma timers_held_new: "timers_held (new_client nm)"
  by (simp add: timers_held_def new_client_def)

lemma timers_held_onclose: "timers_held c \<Longrightarrow> timers_held (socket_onclose c)"
proof -
  assume held: "timers_held c"
  let ?c1 = "emit Disconnected (c\<lparr>socket := None\<rparr>)"
  have held1: "timers_held ?c1"
    using held by (simp add: timers_held_def emit_def log_def)
  show ?thesis
  proof (cases "\<not> closed ?c1 \<and> stream ?c1 \<noteq> None")
    case True
    then have "socket_onclose c = reconnectToSignalServer ?c1"
      by (simp add: socket_onclose_def Let_def)
    with reconnect_schedules_one(1,2) [OF held1] show ?thesis
      by (simp add: timers_held_def)
  next
    case False
    then have "socket_onclose c = ?c1"
      by (auto simp: socket_onclose_def Let_def)
    with held1 show ?thesis by simp
  qed
qed

lemma timers_held_elapsed: "timers_held c \<Longrightarrow> timers_held (timeout_elapsed t c)"
proof (cases "map_of (timers c) t = None")
  case True
  assume "timers_held c"
  with True show ?thesis by (simp add: timeout_elapsed_def)
next
  case False
  assume held: "timers_held c"
  from pending_filtered [OF held False] show ?thesis
    by (simp add: timeout_elapsed_def False reconnect_attempt_def connectToSignalServer_def
        log_def timers_held_def Let_def)
qed

lemma close_result:
  assumes "timers_held c"
  shows "timers (close c) = []" and "closed (close c)"
    and "opened (trace (close c)) = opened (trace c)"
  using clearTimeout_held [OF assms]
  by (auto simp: close_def closeStream_def disconnectFromSignalServer_def clearTimeout_def
      log_def Let_def opened_append opened_StopTrack split: option.splits)

lemma shut_step:
  assumes "closed c" and "timers c = []"
  shows "closed (browser_step ev c) \<and> timers (browser_step ev c) = []
       \<and> opened (trace (browser_step ev c)) = opened (trace c)"
  using assms
  by (cases ev)
    (simp_all add: socket_onopen_def socket_onclose_def timeout_elapsed_def emit_def log_def
      opened_append Let_def)

lemma shut_run:
  assumes "closed c" and "timers c = []"
  shows "timers (browser_run evs c) = [] \<and> opened (trace (browser_run evs c)) = opened (trace c)"
  using assms
proof (induction evs arbitrary: c)
  case Nil
  then show ?case by simp
next
  case (Cons ev evs)
  from shut_step [OF Cons.prems, of ev] Cons.IH [of "browser_step ev c"]
  show ?case by simp
qed

text \<open>
  What the reconnection code computes, in a client all of whose pending timeouts are the
  one held in \<open>#reconnectTimer\<close>. When a socket closes while the client is not closed
  and the stream is open, exactly one timeout is pending afterwards, with the fixed
  delay, and no socket has been opened yet. A pending timeout that elapses does nothing
  but leave the pending list when the \<open>#socket\<close> field is set, and opens a socket when
  the field is unset. After \<open>close()\<close> no timeout is pending, and whatever socket events
  and timeouts follow, no socket is ever opened again.
\<close>

lemma reconnection_policy:
  assumes "timers_held c"
  shows "(\<not> closed c \<and> stream c \<noteq> None \<longrightarrow>
            timers (socket_onclose c) = [(fresh c, reconnect_delay)]
          \<and> reconnectTimer (socket_onclose c) = Some (fresh c)
          \<and> opened (trace (socket_onclose c)) = opened (trace c))
       \<and> (\<forall>t. map_of (timers c) t \<noteq> None \<longrightarrow>
            timeout_elapsed t c =
              (if socket c \<noteq> None then c\<lparr>timers := []\<rparr>
               else connectToSignalServer (c\<lparr>timers := []\<rparr>)))
       \<and> timers (close c) = [] \<and> closed (close c)
       \<and> (\<forall>evs. timers (browser_run evs (close c)) = []
             \<and> opened (trace (browser_run evs (close c))) = opened (trace c))"
proof (intro conjI allI impI)
  let ?c1 = "emit Disconnected (c\<lparr>socket := None\<rparr>)"
  have held1: "timers_held ?c1"
    using assms by (simp add: timers_held_def emit_def log_def)
  assume open_: "\<not> closed c \<and> stream c \<noteq> None"
  then have res: "socket_onclose c = reconnectToSignalServer ?c1"
    by (simp add: socket_onclose_def Let_def emit_def log_def)
  have fr: "fresh ?c1 = fresh c" and tr: "opened (trace ?c1) = opened (trace c)"
    by (simp_all add: emit_def log_def opened_append)
  show "timers (socket_onclose c) = [(fresh c, reconnect_delay)]"
    using reconnect_schedules_one(1) [OF held1] by (simp add: res fr)
  show "reconnectTimer (socket_onclose c) = Some (fresh c)"
    using reconnect_schedules_one(2) [OF held1] by (simp add: res fr)
  show "opened (trace (socket_onclose c)) = opened (trace c)"
    using reconnect_schedules_one(3) [OF held1] by (simp add: res tr)
next
  fix t assume pending: "map_of (timers c) t \<noteq> None"
  from pending_filtered [OF assms pending] pending
  show "timeout_elapsed t c =
              (if socket c \<noteq> None then c\<lparr>timers := []\<rparr>
               else connectToSignalServer (c\<lparr>timers := []\<rparr>))"
    by (auto simp: timeout_elapsed_def reconnect_attempt_def)
next
  show "timers (close c) = []" by (rule close_result(1) [OF assms])
  show "closed (close c)" by (rule close_result(2) [OF assms])
next
  fix evs
  from shut_run [OF close_result(2) [OF assms] close_result(1) [OF assms], of evs]
    close_result(3) [OF assms]
  show "timers (browser_run evs (close c)) = []"
    and "opened (trace (browser_run evs (close c))) = opened (trace c)"
    by simp_all
qed

lemma reconnection_policy_example:
  "timers_held alice_idle \<and> \<not> closed alice_idle \<and> stream alice_idle \<noteq> None
   \<and> socket_onclose alice_idle = alice_dropped
   \<and> timers alice_dropped = [(1, reconnect_delay)]
   \<and> timers_held alice_dropped \<and> map_of (timers alice_dropped) 1 \<noteq> None
   \<and> timeout_elapsed 1 alice_dropped =
       alice_dropped\<lparr>timers := [], socket := Some 2, fresh := 3,
         trace := [Emit Disconnected, OpenSocket 2]\<rparr>
   \<and> timeout_elapsed 1 (alice_dropped\<lparr>socket := Some 5\<rparr>) =
       alice_dropped\<lparr>socket := Some 5, timers := []\<rparr>
   \<and> timers (close alice_dropped) = [] \<and> closed (close alice_dropped)
   \<and> opened (trace (browser_run [SocketClosed, TimeoutElapsed 1, SocketOpened]
        (close alice_dropped))) = []"
proof -
  have held: "timers_held alice_idle" "timers_held alice_dropped"
    "timers_held (alice_dropped\<lparr>socket := Some 5\<rparr>)"
    by (simp_all add: timers_held_def alice_idle_def alice_dropped_def)
  have live: "\<not> closed alice_idle \<and> stream alice_idle \<noteq> None"
    by (simp add: alice_idle_def)
  have pending: "map_of (timers alice_dropped) 1 \<noteq> None"
    "map_of (timers (alice_dropped\<lparr>socket := Some 5\<rparr>)) 1 \<noteq> None"
    by (simp_all add: alice_dropped_def)
  have dropped: "socket_onclose alice_idle = alice_dropped"
    by (simp add: socket_onclose_def reconnectToSignalServer_def clearTimeout_def emit_def
        log_def alice_idle_def alice_dropped_def reconnect_delay_def Let_def)
  from reconnection_policy [OF held(1)] live
  have "timers (socket_onclose alice_idle) = [(fresh alice_idle, reconnect_delay)]"
    by blast
  then have scheduled: "timers alice_dropped = [(1, reconnect_delay)]"
    by (simp add: dropped) (simp add: alice_idle_def)
  from reconnection_policy [OF held(2)] pending(1)
  have "timeout_elapsed 1 alice_dropped =
      (if socket alice_dropped \<noteq> None then alice_dropped\<lparr>timers := []\<rparr>
       else connectToSignalServer (alice_dropped\<lparr>timers := []\<rparr>))"
    by blast
  then have attempt: "timeout_elapsed 1 alice_dropped =
       alice_dropped\<lparr>timers := [], socket := Some 2, fresh := 3,
         trace := [Emit Disconnected, OpenSocket 2]\<rparr>"
    by (simp add: alice_dropped_def connectToSignalServer_def log_def Let_def)
  from reconnection_policy [OF held(3)] pending(2)
  have "timeout_elapsed 1 (alice_dropped\<lparr>socket := Some 5\<rparr>) =
      (if socket (alice_dropped\<lparr>socket := Some 5\<rparr>) \<noteq> None
       then alice_dropped\<lparr>socket := Some 5\<rparr>\<lparr>timers := []\<rparr>
       else connectToSignalServer (alice_dropped\<lparr>socket := Some 5\<rparr>\<lparr>timers := []\<rparr>))"
    by blast
  then have noop: "timeout_elapsed 1 (alice_dropped\<lparr>socket := Some 5\<rparr>) =
       alice_dropped\<lparr>socket := Some 5, timers := []\<rparr>"
    by simp
  from reconnection_policy [OF held(2)]
  have shut: "timers (close alice_dropped) = []" "closed (close alice_dropped)"
    and "opened (trace (browser_run [SocketClosed, TimeoutElapsed 1, SocketOpened]
        (close alice_dropped))) = opened (trace alice_dropped)"
    by blast+
  then have never: "opened (trace (browser_run [SocketClosed, TimeoutElapsed 1, SocketOpened]
        (close alice_dropped))) = []"
    by (simp add: alice_dropped_def)
  from held(1,2) live pending(1) dropped scheduled attempt noop shut never
  show ?thesis by blast
qed

text \<open>
  C9. A scheduled reconnection attempt is to be a no-op when a socket already exists at
  the time the delay elapses. The code tests the \<open>#socket\<close> field instead, and the close
  event of any socket clears that field. In \<open>alice_switching\<close> socket 1 is open and
  \<open>close()\<close> was never called on it, one timeout is pending, and the field is unset: when
  the timeout elapses the client opens socket 3 beside socket 1.
\<close>

theorem timeout_opens_second_socket:
  "\<not> closed alice_switching \<and> stream alice_switching = Some [''video'']
   \<and> opened (trace alice_switching) = [0, 1] \<and> closing (trace alice_switching) = [0]
   \<and> socket alice_switching = None
   \<and> timers alice_switching = [(2, reconnect_delay)]
   \<and> opened (trace (timeout_elapsed 2 alice_switching)) = [0, 1, 3]
   \<and> closing (trace (timeout_elapsed 2 alice_switching)) = [0]
   \<and> socket (timeout_elapsed 2 alice_switching) = Some 3"
  by (simp add: alice_switching_state timeout_elapsed_def reconnect_attempt_def
      connectToSignalServer_def reconnect_delay_def log_def Let_def)

end
